theory Spec2Isabelle
  imports Main
begin

section \<open>Mechanical joints: the \<^verbatim>\<open>Joint\<close> class of \<^verbatim>\<open>Mechanical_joints.py\<close>\<close>

text \<open>
  The class holds a catalogue of joint types (\<^verbatim>\<open>JOINT_TYPES\<close>) and, per instance, the
  attributes \<^verbatim>\<open>joint_type\<close>, \<^verbatim>\<open>axis\<close>, \<^verbatim>\<open>K\<close> (kinematic torsor) and \<^verbatim>\<open>T\<close> (static torsor).
  The constructor normalises the joint type with \<^verbatim>\<open>str.lower\<close>, sets both torsors to
  \<^verbatim>\<open>None\<close> and calls \<^verbatim>\<open>_update_torsors\<close>, which validates the pair and assigns them.

  Modelling decisions.
  \<^item> Strings are \<^typ>\<open>string\<close>; \<^verbatim>\<open>axis\<close> is a \<^typ>\<open>string option\<close>, \<^verbatim>\<open>None\<close> being Python's
    \<^verbatim>\<open>None\<close> (the default of the parameter).
  \<^item> \<^verbatim>\<open>str.lower\<close> is modelled on ASCII letters; every other character is kept. The
    catalogue keys are ASCII and the only non-ASCII code point that Python lowers to an
    ASCII letter is U+212A (to \<^verbatim>\<open>k\<close>), a letter no key contains, so which strings
    resolve to a key is not affected.
  \<^item> The arrays have \<^verbatim>\<open>dtype=object\<close>: an entry is a Python object, an integer or
    \<^verbatim>\<open>None\<close>. An entry is an \<^typ>\<open>int option\<close>, so that the \<^verbatim>\<open>None\<close> branch of the static
    derivation is a branch of the model.
  \<^item> The three \<^verbatim>\<open>raise ValueError(...)\<close> sites are three constructors of \<open>error\<close>,
    carrying the joint type their message prints; an assignment past the end of an
    array raises \<^verbatim>\<open>IndexError\<close>.
  \<^item> \<^verbatim>\<open>_update_torsors\<close> mutates \<^verbatim>\<open>self\<close>: the model takes the instance and returns
    the outcome together with the instance as it is when the method returns or raises.
\<close>

subsection \<open>Data\<close>

datatype error =
    UnknownJointType string  \<comment> \<open>\<^verbatim>\<open>ValueError(f"Unknown joint type: {self.joint_type}")\<close>\<close>
  | MissingAxis string       \<comment> \<open>\<^verbatim>\<open>ValueError(f"Axis must be specified for joint type '{self.joint_type}'.")\<close>\<close>
  | InvalidAxis              \<comment> \<open>\<^verbatim>\<open>ValueError("Axis must be 'x', 'y' or 'z'.")\<close>\<close>
  | IndexError               \<comment> \<open>array assignment out of bounds\<close>

record joint_info =
  french :: string
  axis_required :: bool
  description :: string

type_synonym torsor = "int option list"

record joint =
  joint_type :: string
  axis :: "string option"
  K :: "torsor option"
  T :: "torsor option"

subsection \<open>The catalogue\<close>

text \<open>The class-level dictionary, in insertion order; strings outside ASCII are UTF-8 bytes.\<close>

definition JOINT_TYPES_items :: "(string \<times> joint_info) list" where
  "JOINT_TYPES_items =
    [(''revolute'',
        \<lparr>french = ''Pivot'', axis_required = True,
         description = ''Rotation around a fixed axis''\<rparr>),
     (''prismatic'',
        \<lparr>french = ''Glissi'' @ [CHR 0xC3, CHR 0xA8] @ ''re'', axis_required = True,
         description = ''Translation along a fixed axis''\<rparr>),
     (''fixed'',
        \<lparr>french = ''Encastrement'', axis_required = False,
         description = ''No relative motion''\<rparr>),
     (''fixed_point'',
        \<lparr>french = ''Appui ponctuel'', axis_required = False,
         description = ''Point contact without motion''\<rparr>)]"

definition JOINT_TYPES :: "string \<rightharpoonup> joint_info" where
  "JOINT_TYPES = map_of JOINT_TYPES_items"

subsection \<open>Operations\<close>

text \<open>\<^verbatim>\<open>str.lower\<close>: the letters A to Z (codes 65 to 90) move to a to z.\<close>

definition lower_char :: "char \<Rightarrow> char" where
  "lower_char c =
     (let n = (of_char c :: nat) in if 65 \<le> n \<and> n \<le> 90 then char_of (n + 32) else c)"

definition lower :: "string \<Rightarrow> string" where
  "lower s = map lower_char s"

text \<open>\<^verbatim>\<open>a[i] = v\<close> on an array with a non-negative index.\<close>

definition setitem :: "'a list \<Rightarrow> nat \<Rightarrow> 'a \<Rightarrow> error + 'a list" where
  "setitem a i v = (if i < length a then Inr (a[i := v]) else Inl IndexError)"

text \<open>The local dictionary \<^verbatim>\<open>axis_index\<close> of \<^verbatim>\<open>_update_torsors\<close>.\<close>

definition axis_index :: "string \<rightharpoonup> nat" where
  "axis_index = map_of [(''x'', 0), (''y'', 1), (''z'', 2)]"

text \<open>
  Lines 70 to 91 of \<^verbatim>\<open>_update_torsors\<close>: the local array \<^verbatim>\<open>K\<close>, from the attributes
  \<^verbatim>\<open>joint_type\<close> and \<^verbatim>\<open>axis\<close> of the instance, or the exception raised.
\<close>

definition kinematic :: "joint \<Rightarrow> error + torsor" where
  "kinematic self =
     (let K0 = [Some (0::int), Some 0, Some 0, Some 0, Some 0, Some 0] in
      case JOINT_TYPES (joint_type self) of
        None \<Rightarrow> Inl (UnknownJointType (joint_type self))
      | Some info \<Rightarrow>
          if axis_required info then
            (case axis self of
               None \<Rightarrow> Inl (MissingAxis (joint_type self))
             | Some a \<Rightarrow>
                 (case axis_index a of
                    None \<Rightarrow> Inl InvalidAxis
                  | Some idx \<Rightarrow>
                      if joint_type self = ''revolute'' then setitem K0 idx (Some 1)
                      else if joint_type self = ''prismatic'' then setitem K0 (idx + 3) (Some 1)
                      else Inr K0))
          else Inr K0)"

text \<open>Lines 95 to 98: one entry of the static torsor from one entry of \<^verbatim>\<open>self.K\<close>.\<close>

definition static_entry :: "int option \<Rightarrow> int option" where
  "static_entry v = (case v of None \<Rightarrow> None | Some n \<Rightarrow> Some (if n = 0 then 1 else 0))"

text \<open>
  \<^verbatim>\<open>_update_torsors\<close>: when validation raises, \<^verbatim>\<open>self\<close> is as it was; otherwise
  \<^verbatim>\<open>self.K\<close> and then \<^verbatim>\<open>self.T\<close> are assigned.
\<close>

definition update_torsors :: "joint \<Rightarrow> (error + unit) \<times> joint" where
  "update_torsors self =
     (case kinematic self of
        Inl e \<Rightarrow> (Inl e, self)
      | Inr k \<Rightarrow> (Inr (), self\<lparr>K := Some k, T := Some (map static_entry k)\<rparr>))"

text \<open>\<^verbatim>\<open>__init__\<close>: the four assignments, then \<^verbatim>\<open>_update_torsors\<close>.\<close>

definition init :: "string \<Rightarrow> string option \<Rightarrow> (error + unit) \<times> joint" where
  "init jt ax =
     update_torsors \<lparr>joint_type = lower jt, axis = ax, K = None, T = None\<rparr>"

text \<open>
  The call \<^verbatim>\<open>Joint(joint_type, axis)\<close>: the caller receives the instance when
  \<^verbatim>\<open>__init__\<close> returns, and the exception otherwise.
\<close>

definition Joint :: "string \<Rightarrow> string option \<Rightarrow> error + joint" where
  "Joint jt ax = (case init jt ax of (Inl e, _) \<Rightarrow> Inl e | (Inr _, self) \<Rightarrow> Inr self)"

section \<open>Auxiliary facts\<close>

lemmas Joint_unfold =
  Joint_def init_def update_torsors_def kinematic_def JOINT_TYPES_def JOINT_TYPES_items_def
  axis_index_def setitem_def static_entry_def Let_def

text \<open>The strings used as concrete inputs below, lowered.\<close>

lemma lower_revolute: "lower ''revolute'' = ''revolute''"
  by code_simp

lemma lower_prismatic: "lower ''prismatic'' = ''prismatic''"
  by code_simp

lemma lower_fixed: "lower ''fixed'' = ''fixed''"
  by code_simp

lemma lower_fixed_point: "lower ''fixed_point'' = ''fixed_point''"
  by code_simp

lemma lower_REVOLUTE: "lower ''REVOLUTE'' = ''revolute''"
  by code_simp

lemma lower_Prismatic: "lower ''Prismatic'' = ''prismatic''"
  by code_simp

lemma lower_FIXED: "lower ''FIXED'' = ''fixed''"
  by code_simp

lemma lower_teleport: "lower ''teleport'' = ''teleport''"
  by code_simp

lemma dom_JOINT_TYPES:
  "dom JOINT_TYPES = {''revolute'', ''prismatic'', ''fixed'', ''fixed_point''}"
  by (auto simp: JOINT_TYPES_def JOINT_TYPES_items_def dom_map_of_conv_image_fst)

text \<open>The local array \<^verbatim>\<open>K\<close> is the zero array or one of the six unit arrays.\<close>

lemma kinematic_cases:
  assumes "kinematic s = Inr k"
  shows "k \<in> {map Some [0,0,0,0,0,0],
              map Some [1,0,0,0,0,0], map Some [0,1,0,0,0,0], map Some [0,0,1,0,0,0],
              map Some [0,0,0,1,0,0], map Some [0,0,0,0,1,0], map Some [0,0,0,0,0,1]}"
  using assms
  by (auto simp: kinematic_def JOINT_TYPES_def JOINT_TYPES_items_def axis_index_def
      setitem_def Let_def split: if_splits option.splits)

text \<open>A construction succeeds exactly when validation does, with both torsors assigned.\<close>

lemma Joint_Inr:
  "Joint jt ax = Inr j \<longleftrightarrow>
     (\<exists>k. kinematic \<lparr>joint_type = lower jt, axis = ax, K = None, T = None\<rparr> = Inr k \<and>
          j = \<lparr>joint_type = lower jt, axis = ax, K = Some k, T = Some (map static_entry k)\<rparr>)"
  by (auto simp: Joint_def init_def update_torsors_def split: sum.splits)

lemma kinematic_depends:
  "joint_type s = joint_type s' \<Longrightarrow> axis s = axis s' \<Longrightarrow> kinematic s = kinematic s'"
  by (auto simp: kinematic_def Let_def split: option.splits)

section \<open>Torsors of the catalogued joints\<close>

text \<open>
  Claim C1. A revolute joint with axis \<open>x\<close>, \<open>y\<close> or \<open>z\<close> has a kinematic torsor with a
  single 1, at index 0, 1 or 2 respectively, and zeros elsewhere; a prismatic joint has
  its single 1 at index 3, 4 or 5; the static torsor is the entrywise complement. The
  joint type is matched after lowering, and a joint of either type that was constructed
  successfully was given one of the three axes. In particular
  \<^verbatim>\<open>Joint("revolute", axis="z")\<close> has \<open>K = [0,0,1,0,0,0]\<close>, \<open>T = [1,1,0,1,1,1]\<close> and
  \<^verbatim>\<open>Joint("prismatic", axis="y")\<close> has \<open>K = [0,0,0,0,1,0]\<close>, \<open>T = [1,1,1,1,0,1]\<close>.
\<close>

theorem revolute_prismatic_torsors:
  "(lower jt = ''revolute'' \<longrightarrow>
      Joint jt (Some ''x'') =
        Inr \<lparr>joint_type = ''revolute'', axis = Some ''x'',
             K = Some (map Some [1,0,0,0,0,0]), T = Some (map Some [0,1,1,1,1,1])\<rparr> \<and>
      Joint jt (Some ''y'') =
        Inr \<lparr>joint_type = ''revolute'', axis = Some ''y'',
             K = Some (map Some [0,1,0,0,0,0]), T = Some (map Some [1,0,1,1,1,1])\<rparr> \<and>
      Joint jt (Some ''z'') =
        Inr \<lparr>joint_type = ''revolute'', axis = Some ''z'',
             K = Some (map Some [0,0,1,0,0,0]), T = Some (map Some [1,1,0,1,1,1])\<rparr>) \<and>
   (lower jt = ''prismatic'' \<longrightarrow>
      Joint jt (Some ''x'') =
        Inr \<lparr>joint_type = ''prismatic'', axis = Some ''x'',
             K = Some (map Some [0,0,0,1,0,0]), T = Some (map Some [1,1,1,0,1,1])\<rparr> \<and>
      Joint jt (Some ''y'') =
        Inr \<lparr>joint_type = ''prismatic'', axis = Some ''y'',
             K = Some (map Some [0,0,0,0,1,0]), T = Some (map Some [1,1,1,1,0,1])\<rparr> \<and>
      Joint jt (Some ''z'') =
        Inr \<lparr>joint_type = ''prismatic'', axis = Some ''z'',
             K = Some (map Some [0,0,0,0,0,1]), T = Some (map Some [1,1,1,1,1,0])\<rparr>) \<and>
   (Joint jt ax = Inr j \<and> joint_type j \<in> {''revolute'', ''prismatic''} \<longrightarrow>
      lower jt = joint_type j \<and> ax \<in> {Some ''x'', Some ''y'', Some ''z''})"
proof (intro conjI)
  show "lower jt = ''revolute'' \<longrightarrow>
      Joint jt (Some ''x'') =
        Inr \<lparr>joint_type = ''revolute'', axis = Some ''x'',
             K = Some (map Some [1,0,0,0,0,0]), T = Some (map Some [0,1,1,1,1,1])\<rparr> \<and>
      Joint jt (Some ''y'') =
        Inr \<lparr>joint_type = ''revolute'', axis = Some ''y'',
             K = Some (map Some [0,1,0,0,0,0]), T = Some (map Some [1,0,1,1,1,1])\<rparr> \<and>
      Joint jt (Some ''z'') =
        Inr \<lparr>joint_type = ''revolute'', axis = Some ''z'',
             K = Some (map Some [0,0,1,0,0,0]), T = Some (map Some [1,1,0,1,1,1])\<rparr>"
    by (simp add: Joint_unfold)
  show "lower jt = ''prismatic'' \<longrightarrow>
      Joint jt (Some ''x'') =
        Inr \<lparr>joint_type = ''prismatic'', axis = Some ''x'',
             K = Some (map Some [0,0,0,1,0,0]), T = Some (map Some [1,1,1,0,1,1])\<rparr> \<and>
      Joint jt (Some ''y'') =
        Inr \<lparr>joint_type = ''prismatic'', axis = Some ''y'',
             K = Some (map Some [0,0,0,0,1,0]), T = Some (map Some [1,1,1,1,0,1])\<rparr> \<and>
      Joint jt (Some ''z'') =
        Inr \<lparr>joint_type = ''prismatic'', axis = Some ''z'',
             K = Some (map Some [0,0,0,0,0,1]), T = Some (map Some [1,1,1,1,1,0])\<rparr>"
    by (simp add: Joint_unfold)
  show "Joint jt ax = Inr j \<and> joint_type j \<in> {''revolute'', ''prismatic''} \<longrightarrow>
      lower jt = joint_type j \<and> ax \<in> {Some ''x'', Some ''y'', Some ''z''}"
    by (auto simp: Joint_unfold split: if_splits option.splits)
qed

text \<open>The theorem at the upper-case spellings \<^verbatim>\<open>"REVOLUTE"\<close> and \<^verbatim>\<open>"Prismatic"\<close>.\<close>

theorem revolute_prismatic_torsors_witness:
  "lower ''REVOLUTE'' = ''revolute'' \<and>
   Joint ''REVOLUTE'' (Some ''z'') =
     Inr \<lparr>joint_type = ''revolute'', axis = Some ''z'',
          K = Some (map Some [0,0,1,0,0,0]), T = Some (map Some [1,1,0,1,1,1])\<rparr> \<and>
   lower ''Prismatic'' = ''prismatic'' \<and>
   Joint ''Prismatic'' (Some ''y'') =
     Inr \<lparr>joint_type = ''prismatic'', axis = Some ''y'',
          K = Some (map Some [0,0,0,0,1,0]), T = Some (map Some [1,1,1,1,0,1])\<rparr> \<and>
   joint_type \<lparr>joint_type = ''prismatic'', axis = Some ''y'',
          K = Some (map Some [0,0,0,0,1,0]), T = Some (map Some [1,1,1,1,0,1])\<rparr>
     \<in> {''revolute'', ''prismatic''} \<and>
   Some ''y'' \<in> {Some ''x'', Some ''y'', Some ''z''}"
  using revolute_prismatic_torsors [where jt = "''REVOLUTE''"]
    revolute_prismatic_torsors [where jt = "''Prismatic''" and ax = "Some ''y''"
      and j = "\<lparr>joint_type = ''prismatic'', axis = Some ''y'',
          K = Some (map Some [0,0,0,0,1,0]), T = Some (map Some [1,1,1,1,0,1])\<rparr>"]
  by (simp add: lower_REVOLUTE lower_Prismatic)

text \<open>
  Claim C2. A joint whose type requires no axis (\<open>fixed\<close> or \<open>fixed_point\<close>) is
  constructed successfully whatever the axis argument, with the kinematic torsor
  \<open>[0,0,0,0,0,0]\<close> and the static torsor \<open>[1,1,1,1,1,1]\<close>; and every successfully
  constructed joint whose catalogue entry has \<^verbatim>\<open>axis_required = False\<close> is of one of
  these two types and has these torsors.
\<close>

theorem fixed_torsors:
  "(lower jt \<in> {''fixed'', ''fixed_point''} \<longrightarrow>
      Joint jt ax =
        Inr \<lparr>joint_type = lower jt, axis = ax,
             K = Some (map Some [0,0,0,0,0,0]), T = Some (map Some [1,1,1,1,1,1])\<rparr>) \<and>
   (Joint jt ax = Inr j \<and> JOINT_TYPES (joint_type j) = Some info \<and> \<not> axis_required info \<longrightarrow>
      joint_type j \<in> {''fixed'', ''fixed_point''} \<and>
      K j = Some (map Some [0,0,0,0,0,0]) \<and> T j = Some (map Some [1,1,1,1,1,1]))"
proof (intro conjI)
  show "lower jt \<in> {''fixed'', ''fixed_point''} \<longrightarrow>
      Joint jt ax =
        Inr \<lparr>joint_type = lower jt, axis = ax,
             K = Some (map Some [0,0,0,0,0,0]), T = Some (map Some [1,1,1,1,1,1])\<rparr>"
    by (auto simp: Joint_unfold)
  show "Joint jt ax = Inr j \<and> JOINT_TYPES (joint_type j) = Some info \<and> \<not> axis_required info \<longrightarrow>
      joint_type j \<in> {''fixed'', ''fixed_point''} \<and>
      K j = Some (map Some [0,0,0,0,0,0]) \<and> T j = Some (map Some [1,1,1,1,1,1])"
    by (auto simp: Joint_unfold split: if_splits option.splits)
qed

text \<open>The theorem at \<^verbatim>\<open>Joint("fixed")\<close> and \<^verbatim>\<open>Joint("fixed_point")\<close>.\<close>

theorem fixed_torsors_witness:
  "lower ''fixed'' \<in> {''fixed'', ''fixed_point''} \<and>
   Joint ''fixed'' None =
     Inr \<lparr>joint_type = ''fixed'', axis = None,
          K = Some (map Some [0,0,0,0,0,0]), T = Some (map Some [1,1,1,1,1,1])\<rparr> \<and>
   lower ''fixed_point'' \<in> {''fixed'', ''fixed_point''} \<and>
   Joint ''fixed_point'' None =
     Inr \<lparr>joint_type = ''fixed_point'', axis = None,
          K = Some (map Some [0,0,0,0,0,0]), T = Some (map Some [1,1,1,1,1,1])\<rparr> \<and>
   JOINT_TYPES ''fixed_point'' =
     Some \<lparr>french = ''Appui ponctuel'', axis_required = False,
           description = ''Point contact without motion''\<rparr> \<and>
   \<not> axis_required \<lparr>french = ''Appui ponctuel'', axis_required = False,
           description = ''Point contact without motion''\<rparr>"
  using fixed_torsors [where jt = "''fixed''" and ax = None]
    fixed_torsors [where jt = "''fixed_point''" and ax = None
      and j = "\<lparr>joint_type = ''fixed_point'', axis = None,
          K = Some (map Some [0,0,0,0,0,0]), T = Some (map Some [1,1,1,1,1,1])\<rparr>"
      and info = "\<lparr>french = ''Appui ponctuel'', axis_required = False,
           description = ''Point contact without motion''\<rparr>"]
  by (simp add: lower_fixed lower_fixed_point JOINT_TYPES_def JOINT_TYPES_items_def)

text \<open>
  Claim C3 (complement law). A successfully constructed joint has a kinematic and a
  static torsor of six entries each, and at every index \<open>i\<close> from 0 to 5 where both entries
  are resolved values 0 or 1, the static entry is 1 minus the kinematic entry.
\<close>

theorem complement_law:
  assumes "Joint jt ax = Inr j"
  shows "\<exists>ks ts. K j = Some ks \<and> T j = Some ts \<and> length ks = 6 \<and> length ts = 6 \<and>
           (\<forall>i<6. \<forall>k t. ks ! i = Some k \<and> ts ! i = Some t \<and> k \<in> {0, 1} \<and> t \<in> {0, 1}
                     \<longrightarrow> t = 1 - k)"
proof -
  from assms obtain k
    where k: "kinematic \<lparr>joint_type = lower jt, axis = ax, K = None, T = None\<rparr> = Inr k"
      and j: "j = \<lparr>joint_type = lower jt, axis = ax, K = Some k, T = Some (map static_entry k)\<rparr>"
    unfolding Joint_Inr by blast
  have len: "length k = 6"
    using kinematic_cases [OF k] by auto
  have "\<forall>i<6. \<forall>a t. k ! i = Some a \<and> map static_entry k ! i = Some t \<and> a \<in> {0, 1} \<and> t \<in> {0, 1}
          \<longrightarrow> t = 1 - a"
    using len by (auto simp: static_entry_def)
  with len j show ?thesis
    by simp
qed

text \<open>The theorem at \<^verbatim>\<open>Joint("revolute", axis="x")\<close>.\<close>

theorem complement_law_witness:
  "Joint ''revolute'' (Some ''x'') =
     Inr \<lparr>joint_type = ''revolute'', axis = Some ''x'',
          K = Some (map Some [1,0,0,0,0,0]), T = Some (map Some [0,1,1,1,1,1])\<rparr> \<and>
   map Some [1,0,0,0,0,0] ! 0 = Some (1::int) \<and>
   map Some [0,1,1,1,1,1] ! 0 = Some (1 - 1 :: int) \<and>
   map Some [1,0,0,0,0,0] ! 3 = Some (0::int) \<and>
   map Some [0,1,1,1,1,1] ! 3 = Some (1 - 0 :: int)"
proof -
  have h: "Joint ''revolute'' (Some ''x'') =
     Inr \<lparr>joint_type = ''revolute'', axis = Some ''x'',
          K = Some (map Some [1,0,0,0,0,0]), T = Some (map Some [0,1,1,1,1,1])\<rparr>"
    by (simp add: Joint_unfold lower_revolute)
  from complement_law [OF h]
  have "\<forall>i<6. \<forall>k t. map Some [1,0,0,0,0,0] ! i = Some k \<and> map Some [0,1,1,1,1,1] ! i = Some t \<and>
          k \<in> {0, 1} \<and> t \<in> {0, 1} \<longrightarrow> t = 1 - (k::int)"
    by simp
  then have "map Some [0,1,1,1,1,1] ! 0 = Some (1 - 1 :: int)"
    and "map Some [0,1,1,1,1,1] ! 3 = Some (1 - 0 :: int)"
    by simp_all
  with h show ?thesis
    by simp
qed

section \<open>Validation failures\<close>

text \<open>
  Claim C4, as the code has it. For the joint types whose catalogue entry has
  \<^verbatim>\<open>axis_required = True\<close> (\<open>revolute\<close>, \<open>prismatic\<close>), an axis that is given but is not
  \<open>x\<close>, \<open>y\<close> or \<open>z\<close> makes the construction fail with the invalid-axis error. For
  \<open>fixed\<close> and \<open>fixed_point\<close> the axis checks sit under the \<^verbatim>\<open>axis_required\<close> guard and
  are skipped: the construction succeeds with any axis, which is stored as given.
\<close>

theorem invalid_axis_when_required:
  "(lower jt \<in> {''revolute'', ''prismatic''} \<and> a \<notin> {''x'', ''y'', ''z''} \<longrightarrow>
      Joint jt (Some a) = Inl InvalidAxis) \<and>
   (lower jt \<in> {''fixed'', ''fixed_point''} \<longrightarrow>
      Joint jt (Some a) =
        Inr \<lparr>joint_type = lower jt, axis = Some a,
             K = Some (map Some [0,0,0,0,0,0]), T = Some (map Some [1,1,1,1,1,1])\<rparr>)"
proof (intro conjI)
  show "lower jt \<in> {''revolute'', ''prismatic''} \<and> a \<notin> {''x'', ''y'', ''z''} \<longrightarrow>
      Joint jt (Some a) = Inl InvalidAxis"
    by (auto simp: Joint_unfold)
  show "lower jt \<in> {''fixed'', ''fixed_point''} \<longrightarrow>
      Joint jt (Some a) =
        Inr \<lparr>joint_type = lower jt, axis = Some a,
             K = Some (map Some [0,0,0,0,0,0]), T = Some (map Some [1,1,1,1,1,1])\<rparr>"
    by (auto simp: Joint_unfold)
qed

text \<open>The theorem at \<^verbatim>\<open>Joint("REVOLUTE", axis="w")\<close> and \<^verbatim>\<open>Joint("fixed_point", axis="w")\<close>.\<close>

theorem invalid_axis_when_required_witness:
  "lower ''REVOLUTE'' \<in> {''revolute'', ''prismatic''} \<and> ''w'' \<notin> {''x'', ''y'', ''z''} \<and>
   Joint ''REVOLUTE'' (Some ''w'') = Inl InvalidAxis \<and>
   lower ''fixed_point'' \<in> {''fixed'', ''fixed_point''} \<and>
   Joint ''fixed_point'' (Some ''w'') =
     Inr \<lparr>joint_type = ''fixed_point'', axis = Some ''w'',
          K = Some (map Some [0,0,0,0,0,0]), T = Some (map Some [1,1,1,1,1,1])\<rparr>"
  using invalid_axis_when_required [where jt = "''REVOLUTE''" and a = "''w''"]
    invalid_axis_when_required [where jt = "''fixed_point''" and a = "''w''"]
  by (simp add: lower_REVOLUTE lower_fixed_point)

text \<open>
  Claim C4 as stated fails: \<open>fixed\<close> is a key of the catalogue and \<open>w\<close> is not an axis,
  yet \<^verbatim>\<open>Joint("fixed", axis="w")\<close> returns an instance.
\<close>

theorem invalid_axis_fixed_counterexample:
  "JOINT_TYPES (lower ''fixed'') \<noteq> None \<and> ''w'' \<notin> {''x'', ''y'', ''z''} \<and>
   Joint ''fixed'' (Some ''w'') \<noteq> Inl InvalidAxis \<and>
   Joint ''fixed'' (Some ''w'') =
     Inr \<lparr>joint_type = ''fixed'', axis = Some ''w'',
          K = Some (map Some [0,0,0,0,0,0]), T = Some (map Some [1,1,1,1,1,1])\<rparr>"
  by (simp add: Joint_unfold lower_fixed)

text \<open>
  Claim C5. A joint type that equals no catalogue key once both are lowered makes the
  construction fail with the unknown-joint-type error (whatever the axis); a joint type
  that equals a key once lowered never does. Two spellings with the same lowered form
  give the same result; in particular \<^verbatim>\<open>"REVOLUTE"\<close> and \<^verbatim>\<open>"revolute"\<close> do.
\<close>

theorem unknown_joint_type:
  "((\<forall>k \<in> dom JOINT_TYPES. lower jt \<noteq> lower k) \<longrightarrow>
      Joint jt ax = Inl (UnknownJointType (lower jt))) \<and>
   ((\<exists>k \<in> dom JOINT_TYPES. lower jt = lower k) \<longrightarrow>
      (\<forall>s. Joint jt ax \<noteq> Inl (UnknownJointType s))) \<and>
   (lower jt = lower jt' \<longrightarrow> Joint jt ax = Joint jt' ax) \<and>
   lower ''REVOLUTE'' = lower ''revolute'' \<and>
   Joint ''REVOLUTE'' ax = Joint ''revolute'' ax"
proof (intro conjI)
  show "(\<forall>k \<in> dom JOINT_TYPES. lower jt \<noteq> lower k) \<longrightarrow>
      Joint jt ax = Inl (UnknownJointType (lower jt))"
    by (auto simp: dom_JOINT_TYPES lower_revolute lower_prismatic lower_fixed
        lower_fixed_point Joint_unfold)
  show "(\<exists>k \<in> dom JOINT_TYPES. lower jt = lower k) \<longrightarrow>
      (\<forall>s. Joint jt ax \<noteq> Inl (UnknownJointType s))"
    by (auto simp: dom_JOINT_TYPES lower_revolute lower_prismatic lower_fixed
        lower_fixed_point Joint_unfold split: option.splits)
  show "lower jt = lower jt' \<longrightarrow> Joint jt ax = Joint jt' ax"
    by (auto simp: Joint_def init_def)
  show "lower ''REVOLUTE'' = lower ''revolute''"
    by (simp add: lower_REVOLUTE lower_revolute)
  then show "Joint ''REVOLUTE'' ax = Joint ''revolute'' ax"
    by (simp add: Joint_def init_def)
qed

text \<open>The theorem at \<^verbatim>\<open>Joint("teleport", axis="x")\<close> and at \<^verbatim>\<open>"FIXED"\<close> against \<^verbatim>\<open>"fixed"\<close>.\<close>

theorem unknown_joint_type_witness:
  "dom JOINT_TYPES = {''revolute'', ''prismatic'', ''fixed'', ''fixed_point''} \<and>
   lower ''teleport'' = ''teleport'' \<and>
   Joint ''teleport'' (Some ''x'') = Inl (UnknownJointType ''teleport'') \<and>
   lower ''FIXED'' = lower ''fixed'' \<and>
   Joint ''FIXED'' None = Joint ''fixed'' None \<and>
   Joint ''FIXED'' None \<noteq> Inl (UnknownJointType ''fixed'')"
proof -
  have h1: "\<forall>k \<in> dom JOINT_TYPES. lower ''teleport'' \<noteq> lower k"
    by (simp add: dom_JOINT_TYPES lower_teleport lower_revolute lower_prismatic lower_fixed
        lower_fixed_point)
  have h2: "\<exists>k \<in> dom JOINT_TYPES. lower ''FIXED'' = lower k"
    by (simp add: dom_JOINT_TYPES lower_FIXED lower_fixed)
  have h3: "lower ''FIXED'' = lower ''fixed''"
    by (simp add: lower_FIXED lower_fixed)
  have "Joint ''teleport'' (Some ''x'') = Inl (UnknownJointType ''teleport'')"
    using h1 unknown_joint_type [where jt = "''teleport''" and ax = "Some ''x''"]
    by (simp add: lower_teleport)
  moreover have "Joint ''FIXED'' None \<noteq> Inl (UnknownJointType ''fixed'')"
    using h2 unknown_joint_type [where jt = "''FIXED''" and ax = None]
    by blast
  moreover have "Joint ''FIXED'' None = Joint ''fixed'' None"
    using h3 unknown_joint_type [where jt = "''FIXED''" and jt' = "''fixed''" and ax = None]
    by blast
  ultimately show ?thesis
    using h3 by (simp add: dom_JOINT_TYPES lower_teleport)
qed

text \<open>
  Claim C6. The catalogue entries with \<^verbatim>\<open>axis_required = True\<close> are exactly \<open>revolute\<close>
  and \<open>prismatic\<close>, and constructing a joint of such a type with no axis fails with the
  missing-axis error.
\<close>

theorem missing_axis:
  "((\<exists>info. JOINT_TYPES (lower jt) = Some info \<and> axis_required info) \<longleftrightarrow>
      lower jt \<in> {''revolute'', ''prismatic''}) \<and>
   (lower jt \<in> {''revolute'', ''prismatic''} \<longrightarrow>
      Joint jt None = Inl (MissingAxis (lower jt)))"
proof (intro conjI)
  show "(\<exists>info. JOINT_TYPES (lower jt) = Some info \<and> axis_required info) \<longleftrightarrow>
      lower jt \<in> {''revolute'', ''prismatic''}"
    by (auto simp: JOINT_TYPES_def JOINT_TYPES_items_def split: if_splits)
  show "lower jt \<in> {''revolute'', ''prismatic''} \<longrightarrow>
      Joint jt None = Inl (MissingAxis (lower jt))"
    by (auto simp: Joint_unfold)
qed

text \<open>The theorem at \<^verbatim>\<open>Joint("revolute")\<close> and \<^verbatim>\<open>Joint("Prismatic")\<close>.\<close>

theorem missing_axis_witness:
  "lower ''revolute'' \<in> {''revolute'', ''prismatic''} \<and>
   Joint ''revolute'' None = Inl (MissingAxis ''revolute'') \<and>
   lower ''Prismatic'' \<in> {''revolute'', ''prismatic''} \<and>
   Joint ''Prismatic'' None = Inl (MissingAxis ''prismatic'')"
  using missing_axis [where jt = "''revolute''"] missing_axis [where jt = "''Prismatic''"]
  by (simp add: lower_revolute lower_Prismatic)

text \<open>
  Claim C7 (atomic construction). When \<^verbatim>\<open>__init__\<close> raises, the error is one of the three
  validation errors, the caller receives it, and the instance still has \<^verbatim>\<open>K = None\<close> and
  \<^verbatim>\<open>T = None\<close>; when it returns, both torsors are set and the caller receives that
  instance.
\<close>

theorem construction_atomic:
  "(fst (init jt ax) = Inl e \<longrightarrow>
      K (snd (init jt ax)) = None \<and> T (snd (init jt ax)) = None \<and> Joint jt ax = Inl e \<and>
      e \<in> {UnknownJointType (lower jt), MissingAxis (lower jt), InvalidAxis}) \<and>
   (fst (init jt ax) = Inr u \<longrightarrow>
      K (snd (init jt ax)) \<noteq> None \<and> T (snd (init jt ax)) \<noteq> None \<and>
      Joint jt ax = Inr (snd (init jt ax)))"
proof (intro conjI)
  show "fst (init jt ax) = Inl e \<longrightarrow>
      K (snd (init jt ax)) = None \<and> T (snd (init jt ax)) = None \<and> Joint jt ax = Inl e \<and>
      e \<in> {UnknownJointType (lower jt), MissingAxis (lower jt), InvalidAxis}"
    by (auto simp: Joint_unfold split: if_splits option.splits sum.splits)
  show "fst (init jt ax) = Inr u \<longrightarrow>
      K (snd (init jt ax)) \<noteq> None \<and> T (snd (init jt ax)) \<noteq> None \<and>
      Joint jt ax = Inr (snd (init jt ax))"
    by (auto simp: Joint_def init_def update_torsors_def split: sum.splits)
qed

text \<open>
  The theorem at the failing \<^verbatim>\<open>Joint("revolute", axis="w")\<close> and the succeeding
  \<^verbatim>\<open>Joint("revolute", axis="x")\<close>.
\<close>

theorem construction_atomic_witness:
  "fst (init ''revolute'' (Some ''w'')) = Inl InvalidAxis \<and>
   K (snd (init ''revolute'' (Some ''w''))) = None \<and>
   T (snd (init ''revolute'' (Some ''w''))) = None \<and>
   Joint ''revolute'' (Some ''w'') = Inl InvalidAxis \<and>
   fst (init ''revolute'' (Some ''x'')) = Inr () \<and>
   K (snd (init ''revolute'' (Some ''x''))) \<noteq> None \<and>
   T (snd (init ''revolute'' (Some ''x''))) \<noteq> None \<and>
   Joint ''revolute'' (Some ''x'') = Inr (snd (init ''revolute'' (Some ''x'')))"
proof -
  have h1: "fst (init ''revolute'' (Some ''w'')) = Inl InvalidAxis"
    by (simp add: Joint_unfold lower_revolute)
  have h2: "fst (init ''revolute'' (Some ''x'')) = Inr ()"
    by (simp add: Joint_unfold lower_revolute)
  from h1 h2
    construction_atomic [where jt = "''revolute''" and ax = "Some ''w''" and e = InvalidAxis]
    construction_atomic [where jt = "''revolute''" and ax = "Some ''x''" and u = "()"]
  show ?thesis
    by simp
qed

section \<open>Independence and invariants\<close>

text \<open>
  Claim C8. The derivation reads only the attributes \<^verbatim>\<open>joint_type\<close> and \<^verbatim>\<open>axis\<close>: on two
  instances that agree on them, whatever their torsors were before, \<^verbatim>\<open>_update_torsors\<close>
  has the same outcome and, when it returns, assigns the same kinematic and the same
  static torsor. Hence the result of a construction from a joint type and an axis is
  the one the derivation gives on any instance that carries the lowered joint type and
  that axis.
\<close>

theorem torsors_depend_on_type_and_axis:
  "(joint_type s = joint_type s' \<and> axis s = axis s' \<longrightarrow>
      fst (update_torsors s) = fst (update_torsors s') \<and>
      (fst (update_torsors s) = Inr () \<longrightarrow>
         K (snd (update_torsors s)) = K (snd (update_torsors s')) \<and>
         T (snd (update_torsors s)) = T (snd (update_torsors s')))) \<and>
   (joint_type s = lower jt \<and> axis s = ax \<longrightarrow>
      (case Joint jt ax of
         Inl e \<Rightarrow> fst (update_torsors s) = Inl e
       | Inr j \<Rightarrow> fst (update_torsors s) = Inr () \<and>
                  K (snd (update_torsors s)) = K j \<and> T (snd (update_torsors s)) = T j))"
proof (intro conjI)
  have "joint_type s = joint_type s' \<and> axis s = axis s' \<longrightarrow> kinematic s = kinematic s'"
    using kinematic_depends by blast
  then show "joint_type s = joint_type s' \<and> axis s = axis s' \<longrightarrow>
      fst (update_torsors s) = fst (update_torsors s') \<and>
      (fst (update_torsors s) = Inr () \<longrightarrow>
         K (snd (update_torsors s)) = K (snd (update_torsors s')) \<and>
         T (snd (update_torsors s)) = T (snd (update_torsors s')))"
    by (auto simp: update_torsors_def split: sum.splits)
  show "joint_type s = lower jt \<and> axis s = ax \<longrightarrow>
      (case Joint jt ax of
         Inl e \<Rightarrow> fst (update_torsors s) = Inl e
       | Inr j \<Rightarrow> fst (update_torsors s) = Inr () \<and>
                  K (snd (update_torsors s)) = K j \<and> T (snd (update_torsors s)) = T j)"
  proof
    assume a: "joint_type s = lower jt \<and> axis s = ax"
    have "kinematic \<lparr>joint_type = lower jt, axis = ax, K = None, T = None\<rparr> = kinematic s"
      using a by (intro kinematic_depends) simp_all
    then show "case Joint jt ax of
         Inl e \<Rightarrow> fst (update_torsors s) = Inl e
       | Inr j \<Rightarrow> fst (update_torsors s) = Inr () \<and>
                  K (snd (update_torsors s)) = K j \<and> T (snd (update_torsors s)) = T j"
      by (auto simp: Joint_def init_def update_torsors_def split: sum.splits)
  qed
qed

text \<open>
  The theorem at two prismatic instances with axis \<open>y\<close>, one fresh and one whose torsors
  already hold other arrays, and at the construction \<^verbatim>\<open>Joint("Prismatic", axis="y")\<close>.
\<close>

theorem torsors_depend_on_type_and_axis_witness:
  "fst (update_torsors \<lparr>joint_type = ''prismatic'', axis = Some ''y'', K = None, T = None\<rparr>) =
     Inr () \<and>
   fst (update_torsors
         \<lparr>joint_type = ''prismatic'', axis = Some ''y'', K = Some [], T = Some [Some 7]\<rparr>) =
     Inr () \<and>
   K (snd (update_torsors
         \<lparr>joint_type = ''prismatic'', axis = Some ''y'', K = Some [], T = Some [Some 7]\<rparr>)) =
     Some (map Some [0,0,0,0,1,0]) \<and>
   T (snd (update_torsors
         \<lparr>joint_type = ''prismatic'', axis = Some ''y'', K = Some [], T = Some [Some 7]\<rparr>)) =
     Some (map Some [1,1,1,1,0,1]) \<and>
   (case Joint ''Prismatic'' (Some ''y'') of
      Inl e \<Rightarrow> False
    | Inr j \<Rightarrow> K j = Some (map Some [0,0,0,0,1,0]) \<and> T j = Some (map Some [1,1,1,1,0,1]))"
proof -
  define s where "s = \<lparr>joint_type = ''prismatic'', axis = Some ''y'', K = None, T = None\<rparr>"
  define s' where
    "s' = \<lparr>joint_type = ''prismatic'', axis = Some ''y'', K = Some [], T = Some [Some 7]\<rparr>"
  have agree: "joint_type s = joint_type s' \<and> axis s = axis s'"
    by (simp add: s_def s'_def)
  have run: "update_torsors s =
      (Inr (), \<lparr>joint_type = ''prismatic'', axis = Some ''y'',
                K = Some (map Some [0,0,0,0,1,0]), T = Some (map Some [1,1,1,1,0,1])\<rparr>)"
    by (simp add: s_def Joint_unfold)
  have ok: "fst (update_torsors s) = Inr ()"
    by (simp add: run)
  have ks: "K (snd (update_torsors s)) = Some (map Some [0,0,0,0,1,0])"
    and ts: "T (snd (update_torsors s)) = Some (map Some [1,1,1,1,0,1])"
    by (simp_all add: run)
  from agree ok torsors_depend_on_type_and_axis [where s = s and s' = s']
  have same: "fst (update_torsors s') = Inr () \<and>
      K (snd (update_torsors s')) = K (snd (update_torsors s)) \<and>
      T (snd (update_torsors s')) = T (snd (update_torsors s))"
    by metis
  have arg: "joint_type s = lower ''Prismatic'' \<and> axis s = Some ''y''"
    by (simp add: s_def lower_Prismatic)
  from arg torsors_depend_on_type_and_axis
      [where s = s and jt = "''Prismatic''" and ax = "Some ''y''"]
  have "case Joint ''Prismatic'' (Some ''y'') of
         Inl e \<Rightarrow> fst (update_torsors s) = Inl e
       | Inr j \<Rightarrow> fst (update_torsors s) = Inr () \<and>
                  K (snd (update_torsors s)) = K j \<and> T (snd (update_torsors s)) = T j"
    by blast
  then have built: "case Joint ''Prismatic'' (Some ''y'') of
      Inl e \<Rightarrow> False
    | Inr j \<Rightarrow> K j = Some (map Some [0,0,0,0,1,0]) \<and> T j = Some (map Some [1,1,1,1,0,1])"
    using ok ks ts by (auto split: sum.splits)
  from same ok ks ts built show ?thesis
    unfolding s_def s'_def by metis
qed

text \<open>
  Claim C9. In a successfully constructed joint both torsors have six entries, every
  entry of either is the resolved value 0 or 1 (never \<^verbatim>\<open>None\<close>), and at most one entry
  of the kinematic torsor is 1.
\<close>

theorem torsor_entries_resolved:
  assumes "Joint jt ax = Inr j"
  shows "\<exists>ks ts. K j = Some ks \<and> T j = Some ts \<and> length ks = 6 \<and> length ts = 6 \<and>
           set ks \<subseteq> {Some 0, Some 1} \<and> set ts \<subseteq> {Some 0, Some 1} \<and>
           length (filter (\<lambda>v. v = Some 1) ks) \<le> 1"
proof -
  from assms obtain k
    where k: "kinematic \<lparr>joint_type = lower jt, axis = ax, K = None, T = None\<rparr> = Inr k"
      and j: "j = \<lparr>joint_type = lower jt, axis = ax, K = Some k, T = Some (map static_entry k)\<rparr>"
    unfolding Joint_Inr by blast
  from kinematic_cases [OF k]
  have "length k = 6 \<and> set k \<subseteq> {Some 0, Some 1} \<and>
        set (map static_entry k) \<subseteq> {Some 0, Some 1} \<and>
        length (filter (\<lambda>v. v = Some 1) k) \<le> 1"
    by (auto simp: static_entry_def)
  with j show ?thesis
    by simp
qed

text \<open>The theorem at \<^verbatim>\<open>Joint("prismatic", axis="z")\<close>.\<close>

theorem torsor_entries_resolved_witness:
  "Joint ''prismatic'' (Some ''z'') =
     Inr \<lparr>joint_type = ''prismatic'', axis = Some ''z'',
          K = Some (map Some [0,0,0,0,0,1]), T = Some (map Some [1,1,1,1,1,0])\<rparr> \<and>
   (\<exists>ks ts. K \<lparr>joint_type = ''prismatic'', axis = Some ''z'',
               K = Some (map Some [0,0,0,0,0,1]), T = Some (map Some [1,1,1,1,1,0])\<rparr> = Some ks \<and>
            T \<lparr>joint_type = ''prismatic'', axis = Some ''z'',
               K = Some (map Some [0,0,0,0,0,1]), T = Some (map Some [1,1,1,1,1,0])\<rparr> = Some ts \<and>
            length ks = 6 \<and> length ts = 6 \<and>
            length (filter (\<lambda>v. v = Some 1) ks) \<le> 1) \<and>
   set (map Some [0,0,0,0,0,1]) = {Some 0, Some (1::int)} \<and>
   set (map Some [1,1,1,1,1,0]) = {Some 0, Some (1::int)}"
proof -
  have h: "Joint ''prismatic'' (Some ''z'') =
     Inr \<lparr>joint_type = ''prismatic'', axis = Some ''z'',
          K = Some (map Some [0,0,0,0,0,1]), T = Some (map Some [1,1,1,1,1,0])\<rparr>"
    by (simp add: Joint_unfold lower_prismatic)
  from torsor_entries_resolved [OF h]
  have "\<exists>ks ts. K \<lparr>joint_type = ''prismatic'', axis = Some ''z'',
               K = Some (map Some [0,0,0,0,0,1]), T = Some (map Some [1,1,1,1,1,0])\<rparr> = Some ks \<and>
            T \<lparr>joint_type = ''prismatic'', axis = Some ''z'',
               K = Some (map Some [0,0,0,0,0,1]), T = Some (map Some [1,1,1,1,1,0])\<rparr> = Some ts \<and>
            length ks = 6 \<and> length ts = 6 \<and>
            length (filter (\<lambda>v. v = Some 1) ks) \<le> 1"
    by blast
  moreover have "set (map Some [0,0,0,0,0,1]) = {Some 0, Some (1::int)}"
    and "set (map Some [1,1,1,1,1,0]) = {Some 0, Some (1::int)}"
    by auto
  ultimately show ?thesis
    using h by blast
qed

text \<open>
  Claim C10. The dictionary \<^verbatim>\<open>axis_index\<close> has the lower-case keys only and the axis is
  not lowered: for a joint type that lowers to \<open>revolute\<close> or \<open>prismatic\<close>, the axes
  \<^verbatim>\<open>"X"\<close>, \<^verbatim>\<open>"Y"\<close> and \<^verbatim>\<open>"Z"\<close> make the construction fail with the invalid-axis error.
\<close>

theorem uppercase_axis_invalid:
  "lower jt \<in> {''revolute'', ''prismatic''} \<longrightarrow>
     Joint jt (Some ''X'') = Inl InvalidAxis \<and>
     Joint jt (Some ''Y'') = Inl InvalidAxis \<and>
     Joint jt (Some ''Z'') = Inl InvalidAxis"
  by (auto simp: Joint_unfold)

text \<open>
  The theorem at \<^verbatim>\<open>"REVOLUTE"\<close> and \<^verbatim>\<open>"prismatic"\<close>: the upper-case joint type resolves, the
  upper-case axis does not.
\<close>

theorem uppercase_axis_invalid_witness:
  "lower ''REVOLUTE'' \<in> {''revolute'', ''prismatic''} \<and>
   Joint ''REVOLUTE'' (Some ''X'') = Inl InvalidAxis \<and>
   lower ''prismatic'' \<in> {''revolute'', ''prismatic''} \<and>
   Joint ''prismatic'' (Some ''Z'') = Inl InvalidAxis"
  using uppercase_axis_invalid [where jt = "''REVOLUTE''"]
    uppercase_axis_invalid [where jt = "''prismatic''"]
  by (simp add: lower_REVOLUTE lower_prismatic)

end
